theory Spec2Isabelle
  imports Complex_Main "HOL-Library.AList" "HOL-Library.Finite_Map"
begin

section \<open>Clipboard sync server: the registry, the session handler and the poller of app.py\<close>

text \<open>
  The model follows \<^verbatim>\<open>src/app.py\<close>: the two globals \<^verbatim>\<open>connected_clients\<close> and
  \<^verbatim>\<open>last_clipboard\<close>, the coroutine \<^verbatim>\<open>websocket_endpoint\<close> (lines 35-124) and the
  coroutine \<^verbatim>\<open>monitor\<close> of \<^verbatim>\<open>start_clipboard_monitor\<close> (lines 127-155).

  The source has no function called applyAndBroadcast: the block of lines 76-91 (session
  handler) and the block of lines 133-148 (poller) are the two inlined copies of it, and
  each is a definition of its own below.

  What the libraries do is an input of the model. A WebSocket object is a cell of a store,
  with the \<^verbatim>\<open>application_state\<close> the code reads and one flag per call that can raise
  (\<^verbatim>\<open>accept\<close>, \<^verbatim>\<open>send_json\<close>, \<^verbatim>\<open>close\<close>); the clipboard backend is the text it
  holds, one flag each for \<^verbatim>\<open>pyperclip.copy\<close> and \<^verbatim>\<open>pyperclip.paste\<close> raising, and
  the text it holds after a write of a value that is no string.
  Every exception is a value: a function that can raise returns \<open>Inl (e, s)\<close>, the
  exception and the state at the raise, or \<open>Inr s\<close>.

  An execution of a block between two awaits of different coroutines is taken as atomic:
  the interleaving of the poller's thread with the server's event loop inside one block is
  not modelled. The GTK status label (lines 49-53, 120-124) is outside the model.
\<close>

subsection \<open>The values of Python the code handles\<close>

text \<open>
  What \<^verbatim>\<open>json.loads\<close> returns: \<^verbatim>\<open>None\<close>, a bool, an int, a float, a str, a list or a
  dict with str keys. A float is given by its value, or it is one of the two infinities,
  which a literal too large for a double gives (\<open>True\<close> for the positive one); the
  constant \<^verbatim>\<open>NaN\<close>, which is no JSON, is left out. A dict is a finite map, since no
  operation of the code depends on the order of its keys.
\<close>

datatype json =
    JNull
  | JBool bool
  | JInt int
  | JFloat rat
  | JInfinity bool
  | JStr string
  | JArray "json list"
  | JObject "(string, json) fmap"

text \<open>The value of a bool, an int or a float as a number: \<^verbatim>\<open>True == 1 == 1.0\<close>.\<close>

fun number :: "json \<Rightarrow> rat option" where
  "number (JBool b) = Some (if b then 1 else 0)"
| "number (JInt n) = Some (of_int n)"
| "number (JFloat q) = Some q"
| "number _ = None"

text \<open>The truth value of \<^verbatim>\<open>if content\<close>.\<close>

primrec truthy :: "json \<Rightarrow> bool" where
  "truthy JNull = False"
| "truthy (JBool b) = b"
| "truthy (JInt n) = (n \<noteq> 0)"
| "truthy (JFloat q) = (q \<noteq> 0)"
| "truthy (JInfinity b) = True"
| "truthy (JStr t) = (t \<noteq> [])"
| "truthy (JArray xs) = (xs \<noteq> [])"
| "truthy (JObject m) = (m \<noteq> fmempty)"

text \<open>
  \<^verbatim>\<open>a == b\<close>: numbers by their value, an infinity with itself only, a str with a str
  only, lists item by item, dicts key by key.
\<close>

primrec py_eq :: "json \<Rightarrow> json \<Rightarrow> bool" where
  "py_eq JNull b = (b = JNull)"
| "py_eq (JBool x) b = (number b = Some (if x then 1 else 0))"
| "py_eq (JInt n) b = (number b = Some (of_int n))"
| "py_eq (JFloat q) b = (number b = Some q)"
| "py_eq (JInfinity x) b = (b = JInfinity x)"
| "py_eq (JStr t) b = (b = JStr t)"
| "py_eq (JArray xs) b =
     (case b of JArray ys \<Rightarrow> list_all2 (\<lambda>f y. f y) (map py_eq xs) ys | _ \<Rightarrow> False)"
| "py_eq (JObject m) b =
     (case b of JObject m' \<Rightarrow> fmrel (\<lambda>f y. f y) (fmmap py_eq m) m' | _ \<Rightarrow> False)"

text \<open>\<^verbatim>\<open>message.get(key)\<close>: \<^verbatim>\<open>None\<close> when the key is missing.\<close>

definition dict_get :: "(string, json) fmap \<Rightarrow> string \<Rightarrow> json" where
  "dict_get message key = (case fmlookup message key of None \<Rightarrow> JNull | Some v \<Rightarrow> v)"

subsection \<open>Data\<close>

datatype WebSocketState = CONNECTING | CONNECTED | DISCONNECTED

text \<open>The exceptions the modelled calls raise; all of them derive from \<^verbatim>\<open>Exception\<close>.\<close>

datatype py_exception =
    JSONDecodeError
  | AttributeError
  | PyperclipException
  | RuntimeError
  | WebSocketDisconnect
  | TransportError

fun is_Exception :: "py_exception \<Rightarrow> bool" where
  "is_Exception JSONDecodeError = True"
| "is_Exception AttributeError = True"
| "is_Exception PyperclipException = True"
| "is_Exception RuntimeError = True"
| "is_Exception WebSocketDisconnect = True"
| "is_Exception TransportError = True"

text \<open>
  The three JSON bodies the server sends:
  \<^verbatim>\<open>{"type":"pairing_response","success":true,"message":"Pairing successful"}\<close>,
  \<^verbatim>\<open>{"type":"clipboard_update","text":t,"source":src}\<close> and
  \<^verbatim>\<open>{"status":"success","message":"Clipboard updated"}\<close>.
\<close>

datatype frame =
    PairingResponse
  | ClipboardUpdate json string
  | Success

record websocket =
  application_state :: WebSocketState
  accept_raises :: bool
  send_raises :: bool
  close_raises :: bool

datatype log_level = INFO | WARNING | ERROR

text \<open>A log record: level, the fixed part of the message, the device it names.\<close>

type_synonym log_record = "log_level \<times> string \<times> string"

text \<open>
  \<open>connected_clients\<close> is the dict in insertion order, its values the addresses of the
  WebSocket objects in \<open>websockets\<close>. \<open>last_clipboard\<close> holds whatever value the code
  assigned to it. \<open>stringify\<close> is the text the backend holds after a write of a value
  that is no string. \<open>wire\<close> lists every call of \<^verbatim>\<open>send_json\<close> in order: the object,
  the body, and whether the call returned (\<open>True\<close>) or raised.
\<close>

record server =
  connected_clients :: "(string \<times> nat) list"
  last_clipboard :: json
  websockets :: "nat \<Rightarrow> websocket"
  clipboard :: string
  stringify :: "json \<Rightarrow> string"
  copy_raises :: bool
  paste_raises :: bool
  wire :: "(nat \<times> frame \<times> bool) list"
  log :: "log_record list"

type_synonym outcome = "py_exception \<times> server + server"

text \<open>
  What \<^verbatim>\<open>json.loads(data)\<close> gives for a received text: \<^verbatim>\<open>JSONDecodeError\<close> (the raw
  text is kept), or a value, which may be a dict or not, with whatever it holds under
  the keys \<^verbatim>\<open>type\<close> and \<^verbatim>\<open>text\<close>: the code checks no type.
\<close>

datatype inbound =
    NotJson string
  | Json json

text \<open>What \<^verbatim>\<open>await websocket.receive_text()\<close> gives: a text, or the peer is gone.\<close>

datatype received = Text inbound | Gone

subsection \<open>Library calls\<close>

definition logger :: "log_level \<Rightarrow> string \<Rightarrow> string \<Rightarrow> server \<Rightarrow> server" where
  "logger lvl msg who s = s\<lparr>log := log s @ [(lvl, msg, who)]\<rparr>"

definition written :: "server \<Rightarrow> json \<Rightarrow> string" where
  "written s v = (case v of JStr t \<Rightarrow> t | _ \<Rightarrow> stringify s v)"

definition pyperclip_copy :: "json \<Rightarrow> server \<Rightarrow> outcome" where
  "pyperclip_copy text s =
     (if copy_raises s then Inl (PyperclipException, s)
      else Inr (s\<lparr>clipboard := written s text\<rparr>))"

definition pyperclip_paste :: "server \<Rightarrow> py_exception + string" where
  "pyperclip_paste s = (if paste_raises s then Inl PyperclipException else Inr (clipboard s))"

definition send_json :: "nat \<Rightarrow> frame \<Rightarrow> server \<Rightarrow> outcome" where
  "send_json ws m s =
     (if send_raises (websockets s ws)
      then Inl (TransportError, s\<lparr>wire := wire s @ [(ws, m, False)]\<rparr>)
      else Inr (s\<lparr>wire := wire s @ [(ws, m, True)]\<rparr>))"

definition set_application_state :: "nat \<Rightarrow> WebSocketState \<Rightarrow> server \<Rightarrow> server" where
  "set_application_state ws st s =
     s\<lparr>websockets := (websockets s)(ws := (websockets s ws)\<lparr>application_state := st\<rparr>)\<rparr>"

definition accept :: "nat \<Rightarrow> server \<Rightarrow> outcome" where
  "accept ws s =
     (if accept_raises (websockets s ws) then Inl (TransportError, s)
      else Inr (set_application_state ws CONNECTED s))"

definition close :: "nat \<Rightarrow> server \<Rightarrow> outcome" where
  "close ws s =
     (if close_raises (websockets s ws) then Inl (TransportError, s)
      else Inr (set_application_state ws DISCONNECTED s))"

text \<open>Sequencing: the second statement runs only when the first did not raise.\<close>

definition and_then :: "outcome \<Rightarrow> (server \<Rightarrow> outcome) \<Rightarrow> outcome" where
  "and_then r f = (case r of Inl e \<Rightarrow> Inl e | Inr s \<Rightarrow> f s)"

text \<open>The state an outcome ends in, and the exception it raised, if any.\<close>

definition state_of :: "outcome \<Rightarrow> server" where
  "state_of r = (case r of Inl (e, s) \<Rightarrow> s | Inr s \<Rightarrow> s)"

definition raised :: "outcome \<Rightarrow> py_exception option" where
  "raised r = (case r of Inl (e, s) \<Rightarrow> Some e | Inr s \<Rightarrow> None)"

subsection \<open>Iterating a dict\<close>

text \<open>
  \<^verbatim>\<open>for k, v in connected_clients.items(): body\<close>. The iterator remembers the size of
  the dict when the loop starts (\<open>di_used\<close>) and, at every step and before it looks for a
  next item, raises \<^verbatim>\<open>RuntimeError: dictionary changed size during iteration\<close> when the
  dict has another size now. That raise happens in the \<^verbatim>\<open>for\<close> statement, outside any
  \<^verbatim>\<open>try\<close> of the body. Neither body below raises: each catches \<^verbatim>\<open>Exception\<close> itself.
\<close>

fun for_items ::
  "nat \<Rightarrow> (string \<times> nat) list \<Rightarrow> (string \<Rightarrow> nat \<Rightarrow> server \<Rightarrow> server) \<Rightarrow> server \<Rightarrow> outcome"
where
  "for_items di_used [] body s =
     (if length (connected_clients s) \<noteq> di_used then Inl (RuntimeError, s) else Inr s)"
| "for_items di_used ((k, v) # rest) body s =
     (if length (connected_clients s) \<noteq> di_used then Inl (RuntimeError, s)
      else for_items di_used rest body (body k v s))"

definition for_connected_clients :: "(string \<Rightarrow> nat \<Rightarrow> server \<Rightarrow> server) \<Rightarrow> server \<Rightarrow> outcome" where
  "for_connected_clients body s =
     for_items (length (connected_clients s)) (connected_clients s) body s"

subsection \<open>The session handler, lines 35-124\<close>

text \<open>Lines 83-91: the body of the broadcast loop of the session handler.\<close>

definition broadcast_body :: "string \<Rightarrow> json \<Rightarrow> string \<Rightarrow> nat \<Rightarrow> server \<Rightarrow> server" where
  "broadcast_body device_id content client_id client_ws s =
     (if client_id \<noteq> device_id \<and> application_state (websockets s client_ws) = CONNECTED
      then (case send_json client_ws (ClipboardUpdate content device_id) s of
              Inr s' \<Rightarrow> s'
            | Inl (e, s') \<Rightarrow> logger ERROR ''Error broadcasting to'' client_id s')
      else s)"

text \<open>Lines 76-91: the gate, the backend write, the assignment and the broadcast loop.\<close>

definition apply_and_broadcast :: "string \<Rightarrow> json \<Rightarrow> server \<Rightarrow> outcome" where
  "apply_and_broadcast device_id content s =
     (if truthy content \<and> \<not> py_eq content (last_clipboard s)
      then and_then (pyperclip_copy content s) (\<lambda>s1.
             for_connected_clients (broadcast_body device_id content)
               (logger INFO ''Received clipboard update from'' device_id
                  (s1\<lparr>last_clipboard := content\<rparr>)))
      else Inr s)"

text \<open>Lines 102-105 and 109-112: the two fallbacks, which differ in the logged text only.\<close>

definition apply_fallback :: "string \<Rightarrow> string \<Rightarrow> json \<Rightarrow> server \<Rightarrow> outcome" where
  "apply_fallback what device_id content s =
     (if truthy content \<and> \<not> py_eq content (last_clipboard s)
      then and_then (pyperclip_copy content s) (\<lambda>s1.
             Inr (logger INFO what device_id (s1\<lparr>last_clipboard := content\<rparr>)))
      else Inr s)"

text \<open>
  Lines 60-112: one received text. \<^verbatim>\<open>message.get\<close> on a value that is no dict raises
  \<^verbatim>\<open>AttributeError\<close>, which \<^verbatim>\<open>except json.JSONDecodeError\<close> does not catch. The text
  that is no JSON is the content itself, a str.
\<close>

definition handle_data :: "string \<Rightarrow> nat \<Rightarrow> inbound \<Rightarrow> server \<Rightarrow> outcome" where
  "handle_data device_id websocket data s =
     (case data of
        NotJson raw \<Rightarrow> apply_fallback ''Received plain text from'' device_id (JStr raw) s
      | Json v \<Rightarrow>
          (case v of
             JObject message \<Rightarrow>
               if py_eq (dict_get message ''type'') (JStr ''pairing_request'')
               then send_json websocket PairingResponse
                      (logger INFO ''Pairing request from'' device_id s)
               else if py_eq (dict_get message ''type'') (JStr ''clipboard_update'')
                       \<and> fmlookup message ''text'' \<noteq> None
               then and_then (apply_and_broadcast device_id (the (fmlookup message ''text'')) s)
                      (send_json websocket Success)
               else if fmlookup message ''text'' \<noteq> None
               then apply_fallback ''Received text from'' device_id
                      (the (fmlookup message ''text'')) s
               else Inr s
           | _ \<Rightarrow> Inl (AttributeError, s)))"

text \<open>Lines 114-124: the two \<^verbatim>\<open>except\<close> clauses and the \<^verbatim>\<open>finally\<close> of the session.\<close>

definition session_cleanup :: "string \<Rightarrow> py_exception \<Rightarrow> server \<Rightarrow> server" where
  "session_cleanup device_id e s =
     (let s1 = (if e = WebSocketDisconnect then logger WARNING ''disconnected'' device_id s
                else logger ERROR ''Error with device'' device_id s)
      in s1\<lparr>connected_clients := AList.delete device_id (connected_clients s1)\<rparr>)"

text \<open>
  Lines 56-124: one turn of \<^verbatim>\<open>while True\<close>. The flag says whether the loop goes on; when
  an exception leaves the loop the clean-up has run in the state returned.
\<close>

definition session_step :: "string \<Rightarrow> nat \<Rightarrow> received \<Rightarrow> server \<Rightarrow> bool \<times> server" where
  "session_step device_id websocket r s =
     (case (case r of Gone \<Rightarrow> Inl (WebSocketDisconnect, s)
                    | Text data \<Rightarrow> handle_data device_id websocket data s) of
        Inr s' \<Rightarrow> (True, s')
      | Inl (e, s') \<Rightarrow> (False, session_cleanup device_id e s'))"

text \<open>
  Lines 39-46: the start of a session. Nothing catches an exception of \<^verbatim>\<open>close\<close> or of
  \<^verbatim>\<open>accept\<close> here: the coroutine ends before it registers, and before its \<^verbatim>\<open>try\<close>.
\<close>

definition websocket_connect :: "string \<Rightarrow> nat \<Rightarrow> server \<Rightarrow> outcome" where
  "websocket_connect device_id websocket s =
     and_then
       (case map_of (connected_clients s) device_id of
          Some previous \<Rightarrow>
            close previous (logger WARNING ''already connected. Closing previous connection.'' device_id s)
        | None \<Rightarrow> Inr s)
       (\<lambda>s1. and_then (accept websocket s1) (\<lambda>s2.
          Inr (logger INFO ''connected via WebSocket'' device_id
                 (s2\<lparr>connected_clients := AList.update device_id websocket (connected_clients s2)\<rparr>))))"

subsection \<open>The poller, lines 127-155\<close>

text \<open>Lines 138-148: the body of the poller's loop over the registry.\<close>

definition monitor_body :: "json \<Rightarrow> string \<Rightarrow> nat \<Rightarrow> server \<Rightarrow> server" where
  "monitor_body content device_id ws s =
     (if application_state (websockets s ws) = CONNECTED
      then (case send_json ws (ClipboardUpdate content ''desktop'') s of
              Inr s' \<Rightarrow> logger INFO ''Sent clipboard update to'' device_id s'
            | Inl (e, s') \<Rightarrow>
                (let s1 = logger ERROR ''Error sending to'' device_id s'
                 in s1\<lparr>connected_clients := AList.delete device_id (connected_clients s1)\<rparr>))
      else s)"

text \<open>Lines 133-148: the gate, the assignment and the loop; the poller writes no backend.\<close>

definition monitor_apply_and_broadcast :: "json \<Rightarrow> server \<Rightarrow> outcome" where
  "monitor_apply_and_broadcast content s =
     (if truthy content \<and> \<not> py_eq content (last_clipboard s)
      then for_connected_clients (monitor_body content) (s\<lparr>last_clipboard := content\<rparr>)
      else Inr s)"

text \<open>
  Lines 132-148: what stands inside the \<^verbatim>\<open>try\<close> of one tick. What \<^verbatim>\<open>pyperclip.paste\<close>
  returns is a str.
\<close>

definition monitor_try :: "server \<Rightarrow> outcome" where
  "monitor_try s =
     (case pyperclip_paste s of
        Inl e \<Rightarrow> Inl (e, s)
      | Inr content \<Rightarrow> monitor_apply_and_broadcast (JStr content) s)"

text \<open>
  Lines 131-153: one tick, with \<^verbatim>\<open>except Exception\<close>: an exception of that class is
  logged, any other would leave the tick. \<^verbatim>\<open>asyncio.sleep(1)\<close> changes no state.
\<close>

definition monitor_tick :: "server \<Rightarrow> outcome" where
  "monitor_tick s =
     (case monitor_try s of
        Inr s' \<Rightarrow> Inr s'
      | Inl (e, s') \<Rightarrow>
          if is_Exception e then Inr (logger ERROR ''Clipboard monitor error'' [] s')
          else Inl (e, s'))"

text \<open>
  Lines 130-153: \<^verbatim>\<open>while True\<close>, run for a number of ticks. \<open>None\<close>: the loop is still
  running after them; \<open>Some (e, s)\<close>: the exception \<open>e\<close> ended it in state \<open>s\<close>.
  \<open>monitor_state\<close> is the state after the ticks that ran.
\<close>

fun monitor :: "nat \<Rightarrow> server \<Rightarrow> (py_exception \<times> server) option" where
  "monitor 0 s = None"
| "monitor (Suc n) s =
     (case monitor_tick s of Inl (e, s') \<Rightarrow> Some (e, s') | Inr s' \<Rightarrow> monitor n s')"

fun monitor_state :: "nat \<Rightarrow> server \<Rightarrow> server" where
  "monitor_state 0 s = s"
| "monitor_state (Suc n) s =
     (case monitor_tick s of Inl (e, s') \<Rightarrow> s' | Inr s' \<Rightarrow> monitor_state n s')"

subsection \<open>The two copies of applyAndBroadcast under one name\<close>

text \<open>
  The origin of a value: a device, through its session handler, or the local clipboard,
  through the poller, which sends with the source \<^verbatim>\<open>"desktop"\<close>.
\<close>

datatype origin = Device string | Desktop


text \<open>The loop over the registry of either copy, lines 82-91 and lines 137-148.\<close>

fun fan_out :: "origin \<Rightarrow> json \<Rightarrow> server \<Rightarrow> outcome" where
  "fan_out (Device device_id) content s =
     for_connected_clients (broadcast_body device_id content) s"
| "fan_out Desktop content s = for_connected_clients (monitor_body content) s"

text \<open>What a block added to the wire and to the log, between a state and a later one.\<close>

definition new_sends :: "server \<Rightarrow> server \<Rightarrow> (nat \<times> frame \<times> bool) list" where
  "new_sends s s' = drop (length (wire s)) (wire s')"

definition new_logs :: "server \<Rightarrow> server \<Rightarrow> log_record list" where
  "new_logs s s' = drop (length (log s)) (log s')"

subsection \<open>Notions of the statements\<close>

text \<open>
  An item of the registry is connected when the gate of the two loops lets it pass, and
  failing when a send to it is made and raises. \<open>attempt\<close> is the entry a send to the item
  leaves on the wire.
\<close>

definition connected_item :: "server \<Rightarrow> string \<times> nat \<Rightarrow> bool" where
  "connected_item s x = (application_state (websockets s (snd x)) = CONNECTED)"

definition failing_item :: "server \<Rightarrow> string \<times> nat \<Rightarrow> bool" where
  "failing_item s x = (connected_item s x \<and> send_raises (websockets s (snd x)))"

definition attempt :: "server \<Rightarrow> json \<Rightarrow> string \<Rightarrow> string \<times> nat \<Rightarrow> nat \<times> frame \<times> bool" where
  "attempt s content source x =
     (snd x, ClipboardUpdate content source, \<not> send_raises (websockets s (snd x)))"

subsection \<open>Runs of the server\<close>

text \<open>
  What can happen next: a connection request reaches the endpoint, a session's
  \<^verbatim>\<open>receive_text\<close> returns or raises, the poller ticks, or the world outside changes
  (the sockets, the clipboard, whether the backend raises). The last leaves the two
  globals, the wire and the log as they are.
\<close>

datatype event =
    Connect string nat
  | Receive string nat received
  | Tick
  | World "nat \<Rightarrow> websocket" string bool bool

fun step :: "event \<Rightarrow> server \<Rightarrow> server" where
  "step (Connect device_id websocket) s = state_of (websocket_connect device_id websocket s)"
| "step (Receive device_id websocket r) s = snd (session_step device_id websocket r s)"
| "step Tick s = state_of (monitor_tick s)"
| "step (World w c cr pr) s =
     s\<lparr>websockets := w, clipboard := c, copy_raises := cr, paste_raises := pr\<rparr>"

fun run :: "event list \<Rightarrow> server \<Rightarrow> server" where
  "run [] s = s"
| "run (e # es) s = run es (step e s)"

text \<open>The number of steps of a run that changed \<open>last_clipboard\<close>.\<close>

fun accepted_updates :: "event list \<Rightarrow> server \<Rightarrow> nat" where
  "accepted_updates [] s = 0"
| "accepted_updates (e # es) s =
     (if last_clipboard (step e s) = last_clipboard s then 0 else 1)
       + accepted_updates es (step e s)"

subsection \<open>Concrete states\<close>

text \<open>
  Lines 22-23: the globals at process start; no socket accepted yet, nothing raising. The
  states below are used with strings, for which \<open>stringify\<close> is not asked.
\<close>

definition pending :: websocket where
  "pending = \<lparr>application_state = CONNECTING, accept_raises = False,
               send_raises = False, close_raises = False\<rparr>"

definition healthy :: websocket where
  "healthy = pending\<lparr>application_state := CONNECTED\<rparr>"

definition broken :: websocket where
  "broken = healthy\<lparr>send_raises := True\<rparr>"

definition closed :: websocket where
  "closed = pending\<lparr>application_state := DISCONNECTED\<rparr>"

definition initial :: server where
  "initial = \<lparr>connected_clients = [], last_clipboard = JStr [], websockets = (\<lambda>_. pending),
              clipboard = [], stringify = (\<lambda>_. []), copy_raises = False, paste_raises = False,
              wire = [], log = []\<rparr>"

text \<open>Three devices registered, the socket of the first one raising on every send.\<close>

definition three_clients :: server where
  "three_clients = initial
     \<lparr>connected_clients := [(''d1'', 1), (''d2'', 2), (''d3'', 3)],
      websockets := (\<lambda>_. pending)(1 := broken, 2 := healthy, 3 := healthy)\<rparr>"

text \<open>Two devices registered, both sockets connected and sending.\<close>

definition two_clients :: server where
  "two_clients = initial
     \<lparr>connected_clients := [(''d1'', 1), (''d2'', 2)],
      websockets := (\<lambda>_. pending)(1 := healthy, 2 := healthy)\<rparr>"

text \<open>The message \<^verbatim>\<open>{"type":"clipboard_update","text":t}\<close>, for any value \<open>t\<close>.\<close>

definition clipboard_update_message :: "json \<Rightarrow> inbound" where
  "clipboard_update_message t =
     Json (JObject (fmap_of_list [(''type'', JStr ''clipboard_update''), (''text'', t)]))"

text \<open>The message \<^verbatim>\<open>{"text":t}\<close>, for any value \<open>t\<close>.\<close>

definition text_only_message :: "json \<Rightarrow> inbound" where
  "text_only_message t = Json (JObject (fmap_of_list [(''text'', t)]))"

text \<open>Three devices registered, the socket of the second one closed by the server.\<close>

definition stale_client :: server where
  "stale_client = initial
     \<lparr>connected_clients := [(''d1'', 1), (''d2'', 2), (''d3'', 3)],
      websockets := (\<lambda>_. pending)(1 := healthy, 2 := closed, 3 := healthy)\<rparr>"

section \<open>Lemmas\<close>

lemmas call_defs = logger_def pyperclip_copy_def pyperclip_paste_def send_json_def
  set_application_state_def accept_def close_def and_then_def state_of_def raised_def

lemmas handler_defs = for_connected_clients_def broadcast_body_def apply_and_broadcast_def
  apply_fallback_def handle_data_def session_cleanup_def session_step_def websocket_connect_def
  monitor_body_def monitor_apply_and_broadcast_def monitor_try_def monitor_tick_def
  dict_get_def written_def

lemmas example_defs = pending_def healthy_def broken_def closed_def initial_def
  three_clients_def two_clients_def clipboard_update_message_def text_only_message_def

lemmas ex_defs = example_defs stale_client_def connected_item_def failing_item_def attempt_def
  new_sends_def new_logs_def

lemma state_of_simps [simp]: "state_of (Inr s) = s" "state_of (Inl (e, s)) = s"
  by (simp_all add: state_of_def)

lemma raised_simps [simp]: "raised (Inr s) = None" "raised (Inl (e, s)) = Some e"
  by (simp_all add: raised_def)

lemma is_Exception_all: "is_Exception e"
  by (cases e) simp_all

subsection \<open>Equality of values\<close>


subsection \<open>Association lists\<close>

lemma length_delete_less:
  "(k, a) \<in> set al \<Longrightarrow> length (AList.delete k al) < length al"
  unfolding AList.delete_eq by (rule length_filter_less [where x = "(k, a)"]) auto

lemma set_delete: "set (AList.delete k al) = {x \<in> set al. fst x \<noteq> k}"
  by (auto simp: AList.delete_eq)

lemma key_unique:
  "distinct (map fst al) \<Longrightarrow> x \<in> set al \<Longrightarrow> y \<in> set al \<Longrightarrow> fst x = fst y \<Longrightarrow> x = y"
  by (metis eq_key_imp_eq_value prod.collapse)

lemma value_unique:
  "distinct (map snd al) \<Longrightarrow> x \<in> set al \<Longrightarrow> y \<in> set al \<Longrightarrow> snd x = snd y \<Longrightarrow> x = y"
  by (metis distinct_map inj_onD)

lemma find_SomeD: "find P xs = Some y \<Longrightarrow> y \<in> set xs \<and> P y"
  by (auto simp: find_Some_iff)

subsection \<open>The poller's tick always returns\<close>

lemma monitor_tick_returns: "monitor_tick s = Inr (state_of (monitor_tick s))"
  by (simp add: monitor_tick_def is_Exception_all split: sum.split prod.split)

lemma monitor_running: "monitor n s = None"
proof (induction n arbitrary: s)
  case 0
  show ?case by simp
next
  case (Suc n)
  have "monitor (Suc n) s = monitor n (state_of (monitor_tick s))"
    using monitor_tick_returns [of s] by (cases "monitor_tick s") simp_all
  then show ?case by (simp add: Suc.IH)
qed

subsection \<open>The two loops in closed form\<close>

lemma for_items_size_changed:
  "length (connected_clients s) \<noteq> n \<Longrightarrow> for_items n items body s = Inl (RuntimeError, s)"
  by (cases items) auto

lemma broadcast_body_cases:
  "broadcast_body d c k a t =
     (if k \<noteq> d \<and> connected_item t (k, a)
      then (if send_raises (websockets t a)
            then t\<lparr>wire := wire t @ [attempt t c d (k, a)],
                   log := log t @ [(ERROR, ''Error broadcasting to'', k)]\<rparr>
            else t\<lparr>wire := wire t @ [attempt t c d (k, a)]\<rparr>)
      else t)"
  by (simp add: broadcast_body_def send_json_def logger_def connected_item_def attempt_def)

lemma monitor_body_cases:
  "monitor_body c k a t =
     (if connected_item t (k, a)
      then (if send_raises (websockets t a)
            then t\<lparr>wire := wire t @ [attempt t c ''desktop'' (k, a)],
                   log := log t @ [(ERROR, ''Error sending to'', k)],
                   connected_clients := AList.delete k (connected_clients t)\<rparr>
            else t\<lparr>wire := wire t @ [attempt t c ''desktop'' (k, a)],
                   log := log t @ [(INFO, ''Sent clipboard update to'', k)]\<rparr>)
      else t)"
  by (simp add: monitor_body_def send_json_def logger_def connected_item_def attempt_def)

lemma item_notions_frame [simp]:
  "connected_item (t\<lparr>wire := w\<rparr>) = connected_item t"
  "connected_item (t\<lparr>log := l\<rparr>) = connected_item t"
  "connected_item (t\<lparr>last_clipboard := c\<rparr>) = connected_item t"
  "connected_item (t\<lparr>clipboard := x\<rparr>) = connected_item t"
  "failing_item (t\<lparr>wire := w\<rparr>) = failing_item t"
  "failing_item (t\<lparr>log := l\<rparr>) = failing_item t"
  "failing_item (t\<lparr>last_clipboard := c\<rparr>) = failing_item t"
  "failing_item (t\<lparr>clipboard := x\<rparr>) = failing_item t"
  "attempt (t\<lparr>wire := w\<rparr>) = attempt t"
  "attempt (t\<lparr>log := l\<rparr>) = attempt t"
  "attempt (t\<lparr>last_clipboard := c\<rparr>) = attempt t"
  "attempt (t\<lparr>clipboard := x\<rparr>) = attempt t"
  by (simp_all add: connected_item_def failing_item_def attempt_def fun_eq_iff)

lemma connected_item_snd: "snd x = snd y \<Longrightarrow> connected_item s x = connected_item s y"
  by (simp add: connected_item_def)

text \<open>The loop of the session handler: one attempt for every connected item but the origin's, in
  the order of the registry; the registry is left as it was and the loop never raises.\<close>

lemma broadcast_items:
  "length (connected_clients t) = n \<Longrightarrow>
   for_items n items (broadcast_body d c) t =
     Inr (t\<lparr>wire := wire t @ map (attempt t c d)
                        (filter (\<lambda>x. fst x \<noteq> d \<and> connected_item t x) items),
            log := log t @ map (\<lambda>x. (ERROR, ''Error broadcasting to'', fst x))
                        (filter (\<lambda>x. fst x \<noteq> d \<and> failing_item t x) items)\<rparr>)"
proof (induction items arbitrary: t)
  case Nil
  then show ?case by simp
next
  case (Cons x items)
  obtain k a where x: "x = (k, a)" by (cases x)
  let ?t = "broadcast_body d c k a t"
  have len: "length (connected_clients ?t) = n"
    using Cons.prems by (simp add: broadcast_body_cases)
  have step: "for_items n (x # items) (broadcast_body d c) t = for_items n items (broadcast_body d c) ?t"
    using Cons.prems by (simp add: x)
  show ?case
    unfolding step Cons.IH [OF len]
    by (simp add: broadcast_body_cases x failing_item_def)
qed

text \<open>The loop of the poller: it stops behind the first failing item, which it has removed
  from the registry, with the iterator's \<^verbatim>\<open>RuntimeError\<close>.\<close>

lemma monitor_items:
  "length (connected_clients t) = n \<Longrightarrow> set items \<subseteq> set (connected_clients t) \<Longrightarrow>
   for_items n items (monitor_body c) t =
     (case find (failing_item t) items of
        None \<Rightarrow>
          Inr (t\<lparr>wire := wire t @ map (attempt t c ''desktop'') (filter (connected_item t) items),
                 log := log t @ map (\<lambda>x. (INFO, ''Sent clipboard update to'', fst x))
                                  (filter (connected_item t) items)\<rparr>)
      | Some y \<Rightarrow>
          Inl (RuntimeError,
               t\<lparr>wire := wire t @ map (attempt t c ''desktop'')
                           (filter (connected_item t) (takeWhile (\<lambda>x. \<not> failing_item t x) items) @ [y]),
                 log := log t @ map (\<lambda>x. (INFO, ''Sent clipboard update to'', fst x))
                           (filter (connected_item t) (takeWhile (\<lambda>x. \<not> failing_item t x) items))
                         @ [(ERROR, ''Error sending to'', fst y)],
                 connected_clients := AList.delete (fst y) (connected_clients t)\<rparr>))"
proof (induction items arbitrary: t)
  case Nil
  then show ?case by simp
next
  case (Cons x items)
  obtain k a where x: "x = (k, a)" by (cases x)
  let ?t = "monitor_body c k a t"
  have step: "for_items n (x # items) (monitor_body c) t = for_items n items (monitor_body c) ?t"
    using Cons.prems by (simp add: x)
  show ?case
  proof (cases "failing_item t x")
    case True
    from Cons.prems(2) have "(k, a) \<in> set (connected_clients t)" by (simp add: x)
    then have "length (connected_clients ?t) \<noteq> n"
      using True Cons.prems(1) length_delete_less [of k a "connected_clients t"]
      by (simp add: monitor_body_cases x failing_item_def)
    then have "for_items n items (monitor_body c) ?t = Inl (RuntimeError, ?t)"
      by (rule for_items_size_changed)
    with True show ?thesis
      unfolding step by (simp add: monitor_body_cases x failing_item_def)
  next
    case False
    have body: "?t = (if connected_item t x
                      then t\<lparr>wire := wire t @ [attempt t c ''desktop'' x],
                             log := log t @ [(INFO, ''Sent clipboard update to'', fst x)]\<rparr>
                      else t)"
      using False by (simp add: monitor_body_cases x failing_item_def)
    have len: "length (connected_clients ?t) = n"
      and sub: "set items \<subseteq> set (connected_clients ?t)"
      using Cons.prems by (simp_all add: body)
    have same: "failing_item ?t = failing_item t" "connected_item ?t = connected_item t"
       "attempt ?t = attempt t"
      by (simp_all add: body)
    show ?thesis
      unfolding step Cons.IH [OF len sub] same
      using False by (simp add: body split: option.split)
  qed
qed

declare fan_out.simps [simp del]

lemma fan_out_Device:
  "fan_out (Device d) c t =
     Inr (t\<lparr>wire := wire t @ map (attempt t c d)
                        (filter (\<lambda>x. fst x \<noteq> d \<and> connected_item t x) (connected_clients t)),
            log := log t @ map (\<lambda>x. (ERROR, ''Error broadcasting to'', fst x))
                        (filter (\<lambda>x. fst x \<noteq> d \<and> failing_item t x) (connected_clients t))\<rparr>)"
  by (simp add: fan_out.simps for_connected_clients_def broadcast_items)

lemma fan_out_Desktop:
  "fan_out Desktop c t =
     (case find (failing_item t) (connected_clients t) of
        None \<Rightarrow>
          Inr (t\<lparr>wire := wire t @ map (attempt t c ''desktop'')
                          (filter (connected_item t) (connected_clients t)),
                 log := log t @ map (\<lambda>x. (INFO, ''Sent clipboard update to'', fst x))
                          (filter (connected_item t) (connected_clients t))\<rparr>)
      | Some y \<Rightarrow>
          Inl (RuntimeError,
               t\<lparr>wire := wire t @ map (attempt t c ''desktop'')
                           (filter (connected_item t)
                              (takeWhile (\<lambda>x. \<not> failing_item t x) (connected_clients t)) @ [y]),
                 log := log t @ map (\<lambda>x. (INFO, ''Sent clipboard update to'', fst x))
                           (filter (connected_item t)
                              (takeWhile (\<lambda>x. \<not> failing_item t x) (connected_clients t)))
                         @ [(ERROR, ''Error sending to'', fst y)],
                 connected_clients := AList.delete (fst y) (connected_clients t)\<rparr>))"
  by (simp add: fan_out.simps for_connected_clients_def monitor_items)

lemma fan_out_frame:
  "last_clipboard (state_of (fan_out org c t)) = last_clipboard t"
  "websockets (state_of (fan_out org c t)) = websockets t"
  "clipboard (state_of (fan_out org c t)) = clipboard t"
  "copy_raises (state_of (fan_out org c t)) = copy_raises t"
  "paste_raises (state_of (fan_out org c t)) = paste_raises t"
  by (cases org; simp add: fan_out_Device fan_out_Desktop split: option.split)+

lemma fan_out_sends_subset:
  "set (new_sends s (state_of (fan_out org c s)))
     \<subseteq> (\<lambda>x. (snd x, ClipboardUpdate c (case org of Device d \<Rightarrow> d | Desktop \<Rightarrow> ''desktop''),
                \<not> send_raises (websockets s (snd x))))
         ` {x \<in> set (connected_clients s). connected_item s x
               \<and> (case org of Device d \<Rightarrow> fst x \<noteq> d | Desktop \<Rightarrow> True)}"
proof (cases org)
  case (Device d)
  then show ?thesis
    by (auto simp: fan_out_Device new_sends_def attempt_def)
next
  case Desktop
  show ?thesis
  proof (cases "find (failing_item s) (connected_clients s)")
    case None
    with Desktop show ?thesis
      by (auto simp: fan_out_Desktop new_sends_def attempt_def)
  next
    case (Some y)
    from find_SomeD [OF Some] have "y \<in> set (connected_clients s)" "connected_item s y"
      by (simp_all add: failing_item_def)
    with Desktop Some show ?thesis
      by (auto simp: fan_out_Desktop new_sends_def attempt_def dest: set_takeWhileD)
  qed
qed

lemma fan_out_logs_keys:
  assumes "x \<in> set (new_logs s (state_of (fan_out org c s)))"
  shows "\<exists>y \<in> set (connected_clients s). connected_item s y \<and> snd (snd x) = fst y"
proof (cases org)
  case (Device d)
  with assms show ?thesis
    by (auto simp: fan_out_Device new_logs_def failing_item_def)
next
  case Desktop
  show ?thesis
  proof (cases "find (failing_item s) (connected_clients s)")
    case None
    with Desktop assms show ?thesis
      by (auto simp: fan_out_Desktop new_logs_def)
  next
    case (Some y)
    from find_SomeD [OF Some] have y: "y \<in> set (connected_clients s)" "connected_item s y"
      by (simp_all add: failing_item_def)
    from Desktop Some assms
    have "x = (ERROR, ''Error sending to'', fst y)
          \<or> (\<exists>z \<in> set (takeWhile (\<lambda>x. \<not> failing_item s x) (connected_clients s)).
                connected_item s z \<and> snd (snd x) = fst z)"
      by (auto simp: fan_out_Desktop new_logs_def)
    with y show ?thesis by (auto dest: set_takeWhileD)
  qed
qed

lemma fan_out_keeps_unconnected:
  assumes "distinct (map fst (connected_clients s))"
    and "x \<in> set (connected_clients s)" and "\<not> connected_item s x"
  shows "x \<in> set (connected_clients (state_of (fan_out org c s)))"
proof (cases org)
  case (Device d)
  with assms(2) show ?thesis by (simp add: fan_out_Device)
next
  case Desktop
  show ?thesis
  proof (cases "find (failing_item s) (connected_clients s)")
    case None
    with Desktop assms(2) show ?thesis by (simp add: fan_out_Desktop)
  next
    case (Some y)
    from find_SomeD [OF Some] have y: "y \<in> set (connected_clients s)" "connected_item s y"
      by (simp_all add: failing_item_def)
    with assms key_unique [OF assms(1) assms(2) y(1)] have "fst x \<noteq> fst y" by auto
    with Desktop Some assms(2) show ?thesis by (simp add: fan_out_Desktop set_delete)
  qed
qed

subsection \<open>The two copies of applyAndBroadcast\<close>

lemma new_sends_self [simp]: "new_sends s s = []"
  by (simp add: new_sends_def)

lemma apply_and_broadcast_eq:
  "apply_and_broadcast d c s =
     (if truthy c \<and> \<not> py_eq c (last_clipboard s)
      then (if copy_raises s then Inl (PyperclipException, s)
            else fan_out (Device d) c
                   (logger INFO ''Received clipboard update from'' d
                      (s\<lparr>clipboard := written s c, last_clipboard := c\<rparr>)))
      else Inr s)"
  by (simp add: apply_and_broadcast_def pyperclip_copy_def and_then_def fan_out.simps)

lemma monitor_apply_and_broadcast_eq:
  "monitor_apply_and_broadcast c s =
     (if truthy c \<and> \<not> py_eq c (last_clipboard s) then fan_out Desktop c (s\<lparr>last_clipboard := c\<rparr>)
      else Inr s)"
  by (simp add: monitor_apply_and_broadcast_def fan_out.simps)

lemma apply_and_broadcast_sends:
  "new_sends s (state_of (apply_and_broadcast d v s)) =
     (if truthy v \<and> \<not> py_eq v (last_clipboard s) \<and> \<not> copy_raises s
      then map (attempt s v d) (filter (\<lambda>x. fst x \<noteq> d \<and> connected_item s x) (connected_clients s))
      else [])"
  by (simp add: apply_and_broadcast_eq fan_out_Device new_sends_def logger_def
      connected_item_def attempt_def)





subsection \<open>What a step does to the last clipboard value\<close>

lemma send_json_last_clipboard:
  "last_clipboard (state_of (send_json ws m s)) = last_clipboard s"
  by (simp add: send_json_def)

lemma and_then_send_json_last_clipboard:
  "last_clipboard (state_of (and_then r (send_json ws m))) = last_clipboard (state_of r)"
  by (cases r) (auto simp: and_then_def send_json_def)

lemma apply_and_broadcast_last_clipboard:
  "last_clipboard (state_of (apply_and_broadcast d c s)) =
     (if truthy c \<and> \<not> py_eq c (last_clipboard s) \<and> \<not> copy_raises s then c
      else last_clipboard s)"
  by (simp add: apply_and_broadcast_eq fan_out_frame logger_def)

lemma apply_fallback_last_clipboard:
  "last_clipboard (state_of (apply_fallback what d c s)) =
     (if truthy c \<and> \<not> py_eq c (last_clipboard s) \<and> \<not> copy_raises s then c
      else last_clipboard s)"
  by (simp add: apply_fallback_def pyperclip_copy_def and_then_def logger_def)

lemma monitor_apply_and_broadcast_last_clipboard:
  "last_clipboard (state_of (monitor_apply_and_broadcast c s)) =
     (if truthy c \<and> \<not> py_eq c (last_clipboard s) then c else last_clipboard s)"
  by (simp add: monitor_apply_and_broadcast_eq fan_out_frame)

lemma monitor_tick_last_clipboard:
  "last_clipboard (state_of (monitor_tick s)) =
     (if \<not> paste_raises s \<and> clipboard s \<noteq> [] \<and> \<not> py_eq (JStr (clipboard s)) (last_clipboard s)
      then JStr (clipboard s) else last_clipboard s)"
proof -
  have "last_clipboard (state_of (monitor_tick s)) = last_clipboard (state_of (monitor_try s))"
    by (cases "monitor_try s") (auto simp: monitor_tick_def logger_def)
  also have "\<dots> = (if \<not> paste_raises s \<and> clipboard s \<noteq> []
                        \<and> \<not> py_eq (JStr (clipboard s)) (last_clipboard s)
                     then JStr (clipboard s) else last_clipboard s)"
    by (simp add: monitor_try_def pyperclip_paste_def monitor_apply_and_broadcast_last_clipboard)
  finally show ?thesis .
qed

lemma handle_data_last_clipboard:
  "last_clipboard (state_of (handle_data d ws data s)) = last_clipboard s
   \<or> truthy (last_clipboard (state_of (handle_data d ws data s)))
     \<and> \<not> py_eq (last_clipboard (state_of (handle_data d ws data s))) (last_clipboard s)"
proof (cases data)
  case (NotJson raw)
  then show ?thesis
    by (simp add: handle_data_def apply_fallback_last_clipboard)
next
  case (Json v)
  show ?thesis
  proof (cases v)
    case (JObject m)
    show ?thesis
      by (simp add: handle_data_def Json JObject send_json_last_clipboard
          and_then_send_json_last_clipboard apply_and_broadcast_last_clipboard
          apply_fallback_last_clipboard logger_def)
  qed (simp_all add: handle_data_def Json)
qed

lemma session_step_last_clipboard_eq:
  "last_clipboard (snd (session_step d ws (Text data) s))
     = last_clipboard (state_of (handle_data d ws data s))"
  by (cases "handle_data d ws data s")
     (auto simp: session_step_def session_cleanup_def logger_def Let_def)

lemma session_step_last_clipboard:
  "last_clipboard (snd (session_step d ws r s)) = last_clipboard s
   \<or> truthy (last_clipboard (snd (session_step d ws r s)))
     \<and> \<not> py_eq (last_clipboard (snd (session_step d ws r s))) (last_clipboard s)"
proof (cases r)
  case Gone
  then show ?thesis by (simp add: session_step_def session_cleanup_def logger_def Let_def)
next
  case (Text data)
  with handle_data_last_clipboard [of d ws data s] show ?thesis
    by (simp add: session_step_last_clipboard_eq)
qed

lemma websocket_connect_last_clipboard:
  "last_clipboard (state_of (websocket_connect d ws s)) = last_clipboard s"
  by (simp add: websocket_connect_def call_defs split: option.split)

lemma step_last_clipboard:
  "last_clipboard (step e s) = last_clipboard s
   \<or> truthy (last_clipboard (step e s)) \<and> \<not> py_eq (last_clipboard (step e s)) (last_clipboard s)"
proof (cases e)
  case (Connect d ws)
  then show ?thesis by (simp add: websocket_connect_last_clipboard)
next
  case (Receive d ws r)
  then show ?thesis using session_step_last_clipboard [of d ws r s] by simp
next
  case Tick
  then show ?thesis by (simp add: monitor_tick_last_clipboard)
next
  case (World w c cr pr)
  then show ?thesis by simp
qed

lemma run_keeps_truthy:
  "truthy (last_clipboard s) \<Longrightarrow> truthy (last_clipboard (run es s))"
proof (induction es arbitrary: s)
  case Nil
  then show ?case by simp
next
  case (Cons e es)
  from step_last_clipboard [of e s] Cons.prems have "truthy (last_clipboard (step e s))" by auto
  then show ?case by (simp add: Cons.IH)
qed

lemma run_empty_iff:
  "last_clipboard s = JStr [] \<Longrightarrow>
   (last_clipboard (run es s) = JStr []) = (accepted_updates es s = 0)"
proof (induction es arbitrary: s)
  case Nil
  then show ?case by simp
next
  case (Cons e es)
  show ?case
  proof (cases "last_clipboard (step e s) = last_clipboard s")
    case True
    with Cons.prems Cons.IH [of "step e s"] show ?thesis by simp
  next
    case False
    with step_last_clipboard [of e s] have "truthy (last_clipboard (step e s))" by simp
    from run_keeps_truthy [OF this, of es]
    have "last_clipboard (run es (step e s)) \<noteq> JStr []"
      by auto
    with False show ?thesis by simp
  qed
qed

section \<open>The claims\<close>

subsection \<open>C1: a failing send during a fan-out\<close>

text \<open>
  C1 says that a send failure on one target is caught on its own: it is logged, that one
  connection is evicted, the remaining targets are still served and no error reaches the
  caller. With \<^verbatim>\<open>d1\<close>, \<^verbatim>\<open>d2\<close>, \<^verbatim>\<open>d3\<close> registered and the socket of \<^verbatim>\<open>d1\<close> raising, the
  code does the following. In the poller (lines 137-148) the failure is logged and
  \<^verbatim>\<open>d1\<close> is popped inside the loop over the dict; the next step of the loop raises
  \<^verbatim>\<open>RuntimeError\<close>, which the tick's own \<^verbatim>\<open>except\<close> logs: \<^verbatim>\<open>d2\<close> and \<^verbatim>\<open>d3\<close> are sent
  nothing. In the session handler (lines 82-91) the failure is logged and the loop goes
  on, but \<^verbatim>\<open>d1\<close> stays registered.
\<close>

theorem broken_target_fan_out:
  "raised (monitor_try (three_clients\<lparr>clipboard := ''world''\<rparr>)) = Some RuntimeError
   \<and> connected_clients (state_of (monitor_tick (three_clients\<lparr>clipboard := ''world''\<rparr>)))
       = [(''d2'', 2), (''d3'', 3)]
   \<and> wire (state_of (monitor_tick (three_clients\<lparr>clipboard := ''world''\<rparr>)))
       = [(1, ClipboardUpdate (JStr ''world'') ''desktop'', False)]
   \<and> log (state_of (monitor_tick (three_clients\<lparr>clipboard := ''world''\<rparr>)))
       = [(ERROR, ''Error sending to'', ''d1''), (ERROR, ''Clipboard monitor error'', [])]
   \<and> raised (apply_and_broadcast ''d3'' (JStr ''hello'') three_clients) = None
   \<and> connected_clients (state_of (apply_and_broadcast ''d3'' (JStr ''hello'') three_clients))
       = [(''d1'', 1), (''d2'', 2), (''d3'', 3)]
   \<and> wire (state_of (apply_and_broadcast ''d3'' (JStr ''hello'') three_clients))
       = [(1, ClipboardUpdate (JStr ''hello'') ''d3'', False), (2, ClipboardUpdate (JStr ''hello'') ''d3'', True)]"
  by (simp add: call_defs handler_defs example_defs)

subsection \<open>C2: payloads that are no tagged update\<close>

text \<open>
  C2, as the code has it: a JSON object carrying only a text field, or a payload that is
  no JSON, is applied locally and never fanned out. Whatever the turn of the session's loop
  does with such a payload, it sends nothing, to no connection. When the text is empty or
  equal to the last value, the turn changes nothing. When the text is not empty, differs
  from the last value and the backend write does not raise, the backend holds the text,
  the last value is the text, the registry is as it was and the session goes on. (What
  happens when the write raises is the matter of C4.)
\<close>

theorem fallback_updates_without_fan_out:
  assumes "data = text_only_message text \<or> data = NotJson raw \<and> text = JStr raw"
  shows "wire (snd (session_step d ws (Text data) s)) = wire s
     \<and> (\<not> (truthy text \<and> \<not> py_eq text (last_clipboard s)) \<longrightarrow>
          session_step d ws (Text data) s = (True, s))
     \<and> (truthy text \<and> \<not> py_eq text (last_clipboard s) \<and> \<not> copy_raises s \<longrightarrow>
          fst (session_step d ws (Text data) s)
        \<and> clipboard (snd (session_step d ws (Text data) s)) = written s text
        \<and> last_clipboard (snd (session_step d ws (Text data) s)) = text
        \<and> connected_clients (snd (session_step d ws (Text data) s)) = connected_clients s)"
  using assms
  by (auto simp: session_step_def session_cleanup_def handle_data_def text_only_message_def
      apply_fallback_def pyperclip_copy_def and_then_def logger_def dict_get_def Let_def)

text \<open>The message \<^verbatim>\<open>{"text":"hi"}\<close> from \<^verbatim>\<open>d1\<close>, with \<^verbatim>\<open>d2\<close> registered as well.\<close>

theorem fallback_updates_without_fan_out_witness:
  "truthy (JStr ''hi'') \<and> \<not> py_eq (JStr ''hi'') (last_clipboard two_clients)
   \<and> \<not> copy_raises two_clients
   \<and> wire (snd (session_step ''d1'' 1 (Text (text_only_message (JStr ''hi''))) two_clients))
       = wire two_clients
   \<and> fst (session_step ''d1'' 1 (Text (text_only_message (JStr ''hi''))) two_clients)
   \<and> clipboard (snd (session_step ''d1'' 1 (Text (text_only_message (JStr ''hi''))) two_clients))
       = ''hi''
   \<and> last_clipboard (snd (session_step ''d1'' 1 (Text (text_only_message (JStr ''hi''))) two_clients))
       = JStr ''hi''
   \<and> connected_clients
        (snd (session_step ''d1'' 1 (Text (text_only_message (JStr ''hi''))) two_clients))
       = [(''d1'', 1), (''d2'', 2)]
   \<and> session_step ''d1'' 1 (Text (NotJson [])) two_clients = (True, two_clients)"
  using fallback_updates_without_fan_out
          [of "text_only_message (JStr ''hi'')" "JStr ''hi''" "[]" "''d1''" 1 two_clients]
    fallback_updates_without_fan_out
          [of "NotJson []" "JStr []" "[]" "''d1''" 1 two_clients]
  by (simp add: ex_defs written_def)

text \<open>
  Against C2 as it is worded: \<^verbatim>\<open>d2\<close> is registered and connected, \<^verbatim>\<open>d1\<close> sends the raw
  text \<^verbatim>\<open>hi\<close>, which is not empty and new. The backend and the last value take it, and
  the wire stays empty: \<^verbatim>\<open>d2\<close> is sent no update.
\<close>

theorem fallback_sends_nothing:
  "map_of (connected_clients two_clients) ''d2'' = Some 2
   \<and> application_state (websockets two_clients 2) = CONNECTED
   \<and> last_clipboard two_clients = JStr []
   \<and> handle_data ''d1'' 1 (NotJson ''hi'') two_clients
       = Inr (two_clients\<lparr>last_clipboard := JStr ''hi'', clipboard := ''hi'',
                log := [(INFO, ''Received plain text from'', ''d1'')]\<rparr>)
   \<and> wire (state_of (handle_data ''d1'' 1 (NotJson ''hi'') two_clients)) = []"
  by (simp add: call_defs handler_defs example_defs)

subsection \<open>C3: a second connection under a registered identifier\<close>

text \<open>
  What lines 39-46 do when the identifier is registered and neither \<^verbatim>\<open>close\<close> nor
  \<^verbatim>\<open>accept\<close> raises: the previous socket is closed, the new one accepted, and the entry
  of the identifier, the only one, now holds the new socket.
\<close>

lemma websocket_connect_replaces:
  assumes "map_of (connected_clients s) device_id = Some previous"
    and "\<not> close_raises (websockets s previous)"
    and "\<not> accept_raises (websockets s websocket)"
    and "previous \<noteq> websocket"
  shows "raised (websocket_connect device_id websocket s) = None
    \<and> map_of (connected_clients (state_of (websocket_connect device_id websocket s))) device_id
        = Some websocket
    \<and> map fst (connected_clients (state_of (websocket_connect device_id websocket s)))
        = map fst (connected_clients s)
    \<and> application_state
         (websockets (state_of (websocket_connect device_id websocket s)) previous) = DISCONNECTED
    \<and> application_state
         (websockets (state_of (websocket_connect device_id websocket s)) websocket) = CONNECTED"
proof -
  from assms(1) have "device_id \<in> fst ` set (connected_clients s)"
    using map_of_eq_None_iff [of "connected_clients s" device_id] by auto
  then have keys: "map fst (AList.update device_id websocket (connected_clients s))
                   = map fst (connected_clients s)"
    by (simp add: update_keys)
  from assms show ?thesis
    by (simp add: websocket_connect_def call_defs update_conv' keys)
qed

text \<open>
  C3 says that after a second connection is registered under an identifier, the registry
  maps the identifier to exactly the new connection, in every later state, also after the
  handler of the first connection has cleaned up. In the code the first connection is
  closed and the entry overwritten (lines 40-45); when the handler of the first connection
  then leaves its loop, its \<^verbatim>\<open>finally\<close> pops the identifier (line 119), which by now is
  the entry of the second connection: the registry is empty while the second socket is
  connected.
\<close>

theorem cleanup_of_replaced_session_unregisters_successor:
  "connected_clients (run [Connect ''d1'' 1, Connect ''d1'' 2] initial) = [(''d1'', 2)]
   \<and> application_state (websockets (run [Connect ''d1'' 1, Connect ''d1'' 2] initial) 1)
       = DISCONNECTED
   \<and> application_state (websockets (run [Connect ''d1'' 1, Connect ''d1'' 2] initial) 2)
       = CONNECTED
   \<and> connected_clients
        (run [Connect ''d1'' 1, Connect ''d1'' 2, Receive ''d1'' 1 Gone] initial) = []
   \<and> application_state
        (websockets (run [Connect ''d1'' 1, Connect ''d1'' 2, Receive ''d1'' 1 Gone] initial) 2)
       = CONNECTED"
  by (simp add: call_defs handler_defs example_defs)

subsection \<open>C4: the backend write raises\<close>




subsection \<open>C5: the same value twice in a row\<close>




subsection \<open>C6: no echo to the origin, no exclusion for the poller\<close>

text \<open>
  C6, as the code has it. In a registry whose entries hold different sockets, the block of
  the session handler sends nothing to the socket registered under the origin. The block of
  the poller excludes no identifier: when it accepts a value and no send fails, what it
  sends is exactly one update with the source \<^verbatim>\<open>desktop\<close>, delivered, to every registered
  connection in the state \<^verbatim>\<open>CONNECTED\<close>, in the order of the registry.
\<close>

theorem no_echo_to_origin_no_exclusion_for_desktop:
  "(distinct (map snd (connected_clients s)) \<and> (device_id, a) \<in> set (connected_clients s) \<longrightarrow>
      (\<forall>m ok. (a, m, ok) \<notin> set (new_sends s (state_of (apply_and_broadcast device_id v s)))))
   \<and> (truthy v \<and> \<not> py_eq v (last_clipboard s)
        \<and> (\<forall>x \<in> set (connected_clients s). \<not> failing_item s x) \<longrightarrow>
      raised (monitor_apply_and_broadcast v s) = None
      \<and> new_sends s (state_of (monitor_apply_and_broadcast v s))
          = map (\<lambda>x. (snd x, ClipboardUpdate v ''desktop'', True))
              (filter (connected_item s) (connected_clients s)))"
proof (intro conjI impI allI)
  fix m ok
  assume h: "distinct (map snd (connected_clients s)) \<and> (device_id, a) \<in> set (connected_clients s)"
  show "(a, m, ok) \<notin> set (new_sends s (state_of (apply_and_broadcast device_id v s)))"
  proof
    assume "(a, m, ok) \<in> set (new_sends s (state_of (apply_and_broadcast device_id v s)))"
    then obtain x where x: "x \<in> set (connected_clients s)" "fst x \<noteq> device_id" "snd x = a"
      by (auto simp: apply_and_broadcast_sends attempt_def split: if_splits)
    from h x(1,3) value_unique [of "connected_clients s" x "(device_id, a)"]
    have "x = (device_id, a)" by simp
    with x(2) show False by simp
  qed
next
  assume h: "truthy v \<and> \<not> py_eq v (last_clipboard s)
        \<and> (\<forall>x \<in> set (connected_clients s). \<not> failing_item s x)"
  then have none: "find (failing_item s) (connected_clients s) = None"
    by (simp add: find_None_iff)
  from h have ok: "map (attempt s v ''desktop'') (filter (connected_item s) (connected_clients s))
      = map (\<lambda>x. (snd x, ClipboardUpdate v ''desktop'', True))
              (filter (connected_item s) (connected_clients s))"
    by (auto simp: attempt_def failing_item_def)
  from h none show "raised (monitor_apply_and_broadcast v s) = None"
    by (simp add: monitor_apply_and_broadcast_eq fan_out_Desktop)
  from h none ok show "new_sends s (state_of (monitor_apply_and_broadcast v s))
          = map (\<lambda>x. (snd x, ClipboardUpdate v ''desktop'', True))
              (filter (connected_item s) (connected_clients s))"
    by (simp add: monitor_apply_and_broadcast_eq fan_out_Desktop new_sends_def)
qed

text \<open>Two devices, both connected: \<^verbatim>\<open>hello\<close> from \<^verbatim>\<open>d1\<close>, and from the poller.\<close>

theorem no_echo_to_origin_no_exclusion_for_desktop_witness:
  "distinct (map snd (connected_clients two_clients))
   \<and> (''d1'', 1) \<in> set (connected_clients two_clients)
   \<and> (1, ClipboardUpdate (JStr ''hello'') ''d1'', True)
        \<notin> set (new_sends two_clients (state_of (apply_and_broadcast ''d1'' (JStr ''hello'') two_clients)))
   \<and> truthy (JStr ''hello'') \<and> \<not> py_eq (JStr ''hello'') (last_clipboard two_clients)
   \<and> connected_clients two_clients = [(''d1'', 1), (''d2'', 2)]
   \<and> \<not> failing_item two_clients (''d1'', 1) \<and> \<not> failing_item two_clients (''d2'', 2)
   \<and> new_sends two_clients (state_of (monitor_apply_and_broadcast (JStr ''hello'') two_clients))
       = [(1, ClipboardUpdate (JStr ''hello'') ''desktop'', True),
          (2, ClipboardUpdate (JStr ''hello'') ''desktop'', True)]"
  using no_echo_to_origin_no_exclusion_for_desktop [of two_clients "''d1''" 1 "JStr ''hello''"]
  by (simp add: ex_defs)

text \<open>
  Against C6 as it is worded: \<^verbatim>\<open>d2\<close> is registered, its socket is no longer in the state
  \<^verbatim>\<open>CONNECTED\<close>. The poller accepts \<^verbatim>\<open>world\<close> and sends it to \<^verbatim>\<open>d1\<close> and \<^verbatim>\<open>d3\<close>;
  the registered \<^verbatim>\<open>d2\<close> receives nothing.
\<close>

theorem registered_but_unconnected_gets_nothing:
  "(''d2'', 2) \<in> set (connected_clients stale_client)
   \<and> last_clipboard stale_client = JStr []
   \<and> raised (monitor_apply_and_broadcast (JStr ''world'') stale_client) = None
   \<and> wire (state_of (monitor_apply_and_broadcast (JStr ''world'') stale_client))
       = [(1, ClipboardUpdate (JStr ''world'') ''desktop'', True),
          (3, ClipboardUpdate (JStr ''world'') ''desktop'', True)]"
  by (simp add: ex_defs call_defs handler_defs)

subsection \<open>C7: the acknowledgment of a tagged update\<close>




subsection \<open>C8: the poller outlives every error of a tick\<close>

text \<open>
  C8: the poller never ends because of a failure. However many ticks are run, the loop is
  still running after them (\<open>monitor n s = None\<close>) and the next tick starts from the state
  the last one left; a tick whose read of the backend raises logs the error and changes
  nothing else; and whatever exception the work of a tick raises, the tick logs it and
  returns. The interval between two ticks is real time and is not part of the model.
\<close>

theorem poller_survives_every_error:
  "monitor n s = None
   \<and> monitor_state (Suc n) s = monitor_state n (state_of (monitor_tick s))
   \<and> (paste_raises s \<longrightarrow>
        monitor_tick s = Inr (logger ERROR ''Clipboard monitor error'' [] s))
   \<and> (\<forall>e s'. monitor_try s = Inl (e, s') \<longrightarrow>
        monitor_tick s = Inr (logger ERROR ''Clipboard monitor error'' [] s'))"
proof -
  have a: "monitor_state (Suc n) s = monitor_state n (state_of (monitor_tick s))"
    using monitor_tick_returns [of s] by (cases "monitor_tick s") simp_all
  have b: "paste_raises s \<longrightarrow>
        monitor_tick s = Inr (logger ERROR ''Clipboard monitor error'' [] s)"
    by (simp add: monitor_tick_def monitor_try_def pyperclip_paste_def)
  have c: "\<forall>e s'. monitor_try s = Inl (e, s') \<longrightarrow>
        monitor_tick s = Inr (logger ERROR ''Clipboard monitor error'' [] s')"
    by (simp add: monitor_tick_def is_Exception_all)
  from monitor_running a b c show ?thesis by blast
qed

text \<open>A tick whose read raises, in the initial state, and three ticks run from there.\<close>

theorem poller_survives_every_error_witness:
  "paste_raises (initial\<lparr>paste_raises := True\<rparr>)
   \<and> monitor_try (initial\<lparr>paste_raises := True\<rparr>)
       = Inl (PyperclipException, initial\<lparr>paste_raises := True\<rparr>)
   \<and> monitor_tick (initial\<lparr>paste_raises := True\<rparr>)
       = Inr (logger ERROR ''Clipboard monitor error'' [] (initial\<lparr>paste_raises := True\<rparr>))
   \<and> monitor 3 (initial\<lparr>paste_raises := True\<rparr>) = None"
  using poller_survives_every_error [of 3 "initial\<lparr>paste_raises := True\<rparr>"]
  by (simp add: monitor_try_def pyperclip_paste_def)

subsection \<open>C9: the last clipboard value\<close>

text \<open>
  C9, as the code has it. The last value is assigned at four places, each behind the gate.
  By a tagged update and by an object carrying only a text it becomes the text, whatever
  value that is, when the text is truthy, differs from the last value and the backend
  write does not raise; by a payload that is no JSON it becomes that payload, a non-empty
  string, under the same conditions; by the poller it becomes the non-empty string read
  from the backend when that differs from the last value; in every other case it stays as
  it is. So whatever happens next (a connection, a received text of any kind, a tick of
  the poller), the last value stays or becomes a truthy value that differs from it; once
  it is truthy it is truthy after any run; and after a run from the initial state it is
  the empty string exactly when no step of the run has changed it.
\<close>

theorem last_clipboard_takes_only_new_truthy_values:
  "last_clipboard (state_of (handle_data d ws (clipboard_update_message c) s))
     = (if truthy c \<and> \<not> py_eq c (last_clipboard s) \<and> \<not> copy_raises s then c
        else last_clipboard s)
   \<and> last_clipboard (state_of (handle_data d ws (text_only_message c) s))
     = (if truthy c \<and> \<not> py_eq c (last_clipboard s) \<and> \<not> copy_raises s then c
        else last_clipboard s)
   \<and> last_clipboard (state_of (handle_data d ws (NotJson raw) s))
     = (if raw \<noteq> [] \<and> \<not> py_eq (JStr raw) (last_clipboard s) \<and> \<not> copy_raises s
        then JStr raw else last_clipboard s)
   \<and> last_clipboard (state_of (monitor_tick s))
     = (if \<not> paste_raises s \<and> clipboard s \<noteq> []
           \<and> \<not> py_eq (JStr (clipboard s)) (last_clipboard s)
        then JStr (clipboard s) else last_clipboard s)
   \<and> (last_clipboard (step e s) = last_clipboard s
        \<or> truthy (last_clipboard (step e s))
          \<and> \<not> py_eq (last_clipboard (step e s)) (last_clipboard s))
   \<and> (truthy (last_clipboard s) \<longrightarrow> truthy (last_clipboard (run es s)))
   \<and> ((last_clipboard (run es initial) = JStr []) = (accepted_updates es initial = 0))"
proof -
  have tagged: "last_clipboard (state_of (handle_data d ws (clipboard_update_message c) s))
     = (if truthy c \<and> \<not> py_eq c (last_clipboard s) \<and> \<not> copy_raises s then c
        else last_clipboard s)"
    by (simp add: handle_data_def clipboard_update_message_def dict_get_def
        and_then_send_json_last_clipboard apply_and_broadcast_last_clipboard)
  have untagged: "last_clipboard (state_of (handle_data d ws (text_only_message c) s))
     = (if truthy c \<and> \<not> py_eq c (last_clipboard s) \<and> \<not> copy_raises s then c
        else last_clipboard s)"
    by (simp add: handle_data_def text_only_message_def dict_get_def
        apply_fallback_last_clipboard)
  have plain: "last_clipboard (state_of (handle_data d ws (NotJson raw) s))
     = (if raw \<noteq> [] \<and> \<not> py_eq (JStr raw) (last_clipboard s) \<and> \<not> copy_raises s
        then JStr raw else last_clipboard s)"
    by (simp add: handle_data_def apply_fallback_last_clipboard)
  have start: "(last_clipboard (run es initial) = JStr []) = (accepted_updates es initial = 0)"
    by (rule run_empty_iff) (simp add: initial_def)
  from tagged untagged plain monitor_tick_last_clipboard [of s] step_last_clipboard [of e s]
    run_keeps_truthy [of s es] start
  show ?thesis by blast
qed

text \<open>
  A raw text that replaces an old value; an empty text and a tick, which change nothing,
  from that state and from the initial one.
\<close>

theorem last_clipboard_takes_only_new_truthy_values_witness:
  "truthy (last_clipboard (two_clients\<lparr>last_clipboard := JStr ''old''\<rparr>))
   \<and> last_clipboard (step (Receive ''d1'' 1 (Text (NotJson ''new'')))
                        (two_clients\<lparr>last_clipboard := JStr ''old''\<rparr>)) = JStr ''new''
   \<and> \<not> py_eq (JStr ''new'') (last_clipboard (two_clients\<lparr>last_clipboard := JStr ''old''\<rparr>))
   \<and> last_clipboard (run [Receive ''d1'' 1 (Text (text_only_message (JStr []))), Tick]
                        (two_clients\<lparr>last_clipboard := JStr ''old''\<rparr>)) = JStr ''old''
   \<and> accepted_updates [Receive ''d1'' 1 (Text (text_only_message (JStr []))), Tick] initial = 0
   \<and> last_clipboard (run [Receive ''d1'' 1 (Text (text_only_message (JStr []))), Tick] initial)
       = JStr []"
  using last_clipboard_takes_only_new_truthy_values
          [where s = "two_clients\<lparr>last_clipboard := JStr ''old''\<rparr>"
             and e = "Receive ''d1'' 1 (Text (NotJson ''new''))"
             and es = "[Receive ''d1'' 1 (Text (text_only_message (JStr []))), Tick]"
             and d = "''d1''" and ws = 1 and c = "JStr []" and raw = "''new''"]
  by (simp add: ex_defs call_defs handler_defs)

text \<open>
  Against C9 as it is worded: \<^verbatim>\<open>d1\<close> sends \<^verbatim>\<open>{"text":123}\<close>, and the backend takes the
  number and holds the text \<^verbatim>\<open>123\<close>. The text of the message is truthy and differs
  from the empty string, so it is assigned: the last value is now the int 123, which is
  no string. The same happens with the tagged message, which also sends the number on.
\<close>

theorem number_becomes_last_value:
  "last_clipboard (two_clients\<lparr>stringify := (\<lambda>_. ''123'')\<rparr>) = JStr []
   \<and> handle_data ''d1'' 1 (text_only_message (JInt 123))
        (two_clients\<lparr>stringify := (\<lambda>_. ''123'')\<rparr>)
       = Inr (two_clients\<lparr>stringify := (\<lambda>_. ''123''), last_clipboard := JInt 123,
                clipboard := ''123'', log := [(INFO, ''Received text from'', ''d1'')]\<rparr>)
   \<and> last_clipboard
        (state_of (handle_data ''d1'' 1 (clipboard_update_message (JInt 123))
           (two_clients\<lparr>stringify := (\<lambda>_. ''123'')\<rparr>)))
       = JInt 123
   \<and> wire
        (state_of (handle_data ''d1'' 1 (clipboard_update_message (JInt 123))
           (two_clients\<lparr>stringify := (\<lambda>_. ''123'')\<rparr>)))
       = [(2, ClipboardUpdate (JInt 123) ''d1'', True), (1, Success, True)]"
  by (simp add: call_defs handler_defs example_defs)

subsection \<open>C10: only connected sockets are sent to\<close>

text \<open>
  C10: in the loop of the session handler and in the loop of the poller, every send goes
  to a registered socket in the state \<^verbatim>\<open>CONNECTED\<close>; a registered connection in another
  state is sent nothing, no log record of the loop names it, and it is still registered
  when the loop is over. The keys of the registry are distinct, as those of a dict are.
\<close>

theorem fan_out_skips_unconnected:
  assumes "distinct (map fst (connected_clients s))"
  shows "(\<forall>x \<in> set (new_sends s (state_of (fan_out org c s))).
            \<exists>k. (k, fst x) \<in> set (connected_clients s) \<and> connected_item s (k, fst x))
       \<and> (\<forall>x \<in> set (connected_clients s). \<not> connected_item s x \<longrightarrow>
              (\<forall>m ok. (snd x, m, ok) \<notin> set (new_sends s (state_of (fan_out org c s))))
            \<and> (\<forall>l m. (l, m, fst x) \<notin> set (new_logs s (state_of (fan_out org c s))))
            \<and> x \<in> set (connected_clients (state_of (fan_out org c s))))"
proof (intro conjI ballI impI allI)
  fix x assume "x \<in> set (new_sends s (state_of (fan_out org c s)))"
  with fan_out_sends_subset [of s org c]
  obtain y where "y \<in> set (connected_clients s)" "connected_item s y" "fst x = snd y"
    by fastforce
  then have "(fst y, fst x) \<in> set (connected_clients s) \<and> connected_item s (fst y, fst x)"
    using connected_item_snd [of "(fst y, fst x)" y s] by simp
  then show "\<exists>k. (k, fst x) \<in> set (connected_clients s) \<and> connected_item s (k, fst x)" ..
next
  fix x m ok
  assume x: "x \<in> set (connected_clients s)" "\<not> connected_item s x"
  show "(snd x, m, ok) \<notin> set (new_sends s (state_of (fan_out org c s)))"
  proof
    assume "(snd x, m, ok) \<in> set (new_sends s (state_of (fan_out org c s)))"
    with fan_out_sends_subset [of s org c]
    obtain y where "connected_item s y" "snd x = snd y" by fastforce
    with x(2) connected_item_snd [of x y s] show False by simp
  qed
next
  fix x l m
  assume x: "x \<in> set (connected_clients s)" "\<not> connected_item s x"
  show "(l, m, fst x) \<notin> set (new_logs s (state_of (fan_out org c s)))"
  proof
    assume "(l, m, fst x) \<in> set (new_logs s (state_of (fan_out org c s)))"
    from fan_out_logs_keys [OF this]
    obtain y where y: "y \<in> set (connected_clients s)" "connected_item s y" "fst x = fst y"
      by auto
    from key_unique [OF assms x(1) y(1) y(3)] y(2) x(2) show False by simp
  qed
next
  fix x
  assume "x \<in> set (connected_clients s)" "\<not> connected_item s x"
  with assms show "x \<in> set (connected_clients (state_of (fan_out org c s)))"
    by (rule fan_out_keeps_unconnected)
qed

text \<open>Three devices, the second one registered with a closed socket; both loops.\<close>

theorem fan_out_skips_unconnected_witness:
  "distinct (map fst (connected_clients stale_client))
   \<and> new_sends stale_client (state_of (fan_out Desktop (JStr ''w'') stale_client))
       = [(1, ClipboardUpdate (JStr ''w'') ''desktop'', True), (3, ClipboardUpdate (JStr ''w'') ''desktop'', True)]
   \<and> connected_item stale_client (''d1'', 1) \<and> connected_item stale_client (''d3'', 3)
   \<and> (''d2'', 2) \<in> set (connected_clients stale_client)
   \<and> \<not> connected_item stale_client (''d2'', 2)
   \<and> (2, ClipboardUpdate (JStr ''w'') ''desktop'', True)
        \<notin> set (new_sends stale_client (state_of (fan_out Desktop (JStr ''w'') stale_client)))
   \<and> (ERROR, ''Error sending to'', ''d2'')
        \<notin> set (new_logs stale_client (state_of (fan_out Desktop (JStr ''w'') stale_client)))
   \<and> (''d2'', 2) \<in> set (connected_clients (state_of (fan_out Desktop (JStr ''w'') stale_client)))
   \<and> (''d2'', 2) \<in> set (connected_clients (state_of (fan_out (Device ''d1'') (JStr ''w'') stale_client)))"
  using fan_out_skips_unconnected [of stale_client Desktop "JStr ''w''"]
    fan_out_skips_unconnected [of stale_client "Device ''d1''" "JStr ''w''"]
  by (simp add: ex_defs fan_out_Desktop)

end
